theory Spec2Isabelle
  imports Complex_Main "HOL-Library.AList" "HOL-Library.Sublist"
begin

section \<open>Values, transports and client objects\<close>

text \<open>
  The relay is the file \<^verbatim>\<open>src/unnamed/part_001\<close>, version 1.1.43
  (\<^verbatim>\<open>src/server.js\<close> and \<^verbatim>\<open>src/unnamed/part_000\<close> are two earlier versions of the
  same file, from before the routing by webhook id). It keeps three module-level
  containers: \<^verbatim>\<open>clients\<close> (a Map from connection id to client object),
  \<^verbatim>\<open>webhookClients\<close> (a Map from webhook id to a Set of client objects) and
  \<^verbatim>\<open>legacyClients\<close> (a Set of client objects). Its handlers read fields of parsed
  JSON (\<^verbatim>\<open>data.webhookId\<close>, \<^verbatim>\<open>data.legacy\<close>, \<^verbatim>\<open>data.symbol\<close>,
  \<^verbatim>\<open>alert.symbol\<close>) and use them only through truthiness, \<^verbatim>\<open>===\<close>/\<^verbatim>\<open>!==\<close>
  and as Map keys. A JavaScript value is therefore modelled by what these three
  operations can see: \<^verbatim>\<open>undefined\<close> (an absent property), \<^verbatim>\<open>null\<close>, a boolean, a
  number by its value (\<^verbatim>\<open>-0\<close> and \<^verbatim>\<open>0\<close> are the same key and both falsy;
  \<^verbatim>\<open>JSON.parse\<close> yields no NaN), a string by its code units, and an object or array
  by its reference (each \<^verbatim>\<open>JSON.parse\<close> allocates fresh ones).
\<close>

datatype jsval =
    Undefined
  | Null
  | JBool bool
  | JNum rat
  | JStr string
  | JObject nat

fun truthy :: "jsval \<Rightarrow> bool" where
  "truthy Undefined = False"
| "truthy Null = False"
| "truthy (JBool b) = b"
| "truthy (JNum n) = (n \<noteq> 0)"
| "truthy (JStr s) = (s \<noteq> [])"
| "truthy (JObject r) = True"

text \<open>
  An alert is the decoded request body. The relay inspects only \<^verbatim>\<open>alert.symbol\<close>
  (\<^verbatim>\<open>undefined\<close> when the body has no such property, as for a text body); the
  rest of the body is carried along unread.
\<close>

record alert =
  alert_symbol :: jsval
  alert_fields :: "(string \<times> jsval) list"

text \<open>
  The messages the server writes to a transport, before \<^verbatim>\<open>JSON.stringify\<close>:
  \<^verbatim>\<open>connected\<close> (clientId, timestamp), \<^verbatim>\<open>registered\<close> (webhookId, mode),
  \<^verbatim>\<open>pong\<close>, \<^verbatim>\<open>session_cleared\<close>, and the alert envelope (data, the
  \<^verbatim>\<open>webhookId\<close> field of the keyed path, the \<^verbatim>\<open>legacy\<close> field of the legacy path,
  timestamp). Times are \<^verbatim>\<open>Date.now()\<close> readings: milliseconds since the epoch, a
  natural number (a clock set before 1970 is not modelled).
\<close>

datatype out_msg =
    MsgConnected nat nat
  | MsgRegistered jsval string
  | MsgPong nat
  | MsgSessionCleared nat
  | MsgAlert alert "string option" bool nat

datatype ready_state = CONNECTING | OPEN | CLOSING | CLOSED

text \<open>
  The transport of one connection: its \<^verbatim>\<open>readyState\<close>, which only the environment
  changes, and the messages handed to \<^verbatim>\<open>ws.send\<close> while it was open, oldest first.
\<close>

record websocket =
  readyState :: ready_state
  sent :: "out_msg list"

text \<open>
  \<^verbatim>\<open>clientObj\<close> of the connection handler. Each client object holds the only reference
  to its transport, so the transport is nested in the record. (\<^verbatim>\<open>client_id\<close> is the
  field \<^verbatim>\<open>id\<close>.)
\<close>

record client =
  ws :: websocket
  client_id :: nat
  ip :: string
  connectedAt :: nat
  symbol :: jsval
  webhookId :: jsval
  isLegacy :: bool
  ignoreUntil :: nat

section \<open>The registry\<close>

text \<open>
  The Sets hold references to client objects, and a handler that mutates
  \<^verbatim>\<open>clients.get(clientId)\<close> mutates the object every Set sees. The model keeps the
  objects in a store, \<open>heap\<close>, and the containers hold references into it. The
  connection handler allocates one client object per connection and nothing copies it,
  so the object of connection \<open>n\<close> is stored at reference \<open>n\<close>. An object stays in the
  store after \<^verbatim>\<open>clients.delete\<close>: a Set may still refer to it.

  A JavaScript Set is a list without repetition in insertion order, a Map an association
  list in insertion order.
\<close>

record relay =
  heap :: "nat \<rightharpoonup> client"
  clients :: "nat list"
  clientIdCounter :: nat
  webhookClients :: "(jsval \<times> nat list) list"
  legacyClients :: "nat list"

definition init :: relay where
  "init = \<lparr>heap = Map.empty, clients = [], clientIdCounter = 0,
           webhookClients = [], legacyClients = []\<rparr>"

definition set_add :: "nat \<Rightarrow> nat list \<Rightarrow> nat list" where
  "set_add x xs = (if x \<in> set xs then xs else xs @ [x])"

definition set_delete :: "nat \<Rightarrow> nat list \<Rightarrow> nat list" where
  "set_delete x xs = removeAll x xs"

definition map_has :: "jsval \<Rightarrow> (jsval \<times> nat list) list \<Rightarrow> bool" where
  "map_has k m = (map_of m k \<noteq> None)"

text \<open>
  \<^verbatim>\<open>webhookClients.get(k)\<close> where the code has just checked \<^verbatim>\<open>has(k)\<close> or has
  created the bucket: the Set stored under \<open>k\<close> (the empty list stands for a missing
  one, which those call sites never meet).
\<close>

definition map_get :: "jsval \<Rightarrow> (jsval \<times> nat list) list \<Rightarrow> nat list" where
  "map_get k m = (case map_of m k of None \<Rightarrow> [] | Some b \<Rightarrow> b)"

definition map_set :: "jsval \<Rightarrow> nat list \<Rightarrow> (jsval \<times> nat list) list \<Rightarrow> (jsval \<times> nat list) list" where
  "map_set k v m = AList.update k v m"

definition map_delete :: "jsval \<Rightarrow> (jsval \<times> nat list) list \<Rightarrow> (jsval \<times> nat list) list" where
  "map_delete k m = AList.delete k m"

text \<open>\<^verbatim>\<open>clients.get(clientId)\<close>: the object, or \<^verbatim>\<open>undefined\<close>.\<close>

definition clients_get :: "relay \<Rightarrow> nat \<Rightarrow> client option" where
  "clients_get s clientId = (if clientId \<in> set (clients s) then heap s clientId else None)"

text \<open>
  \<^verbatim>\<open>ws.send(m)\<close>. The handlers below call it on an open transport, or inside the
  \<^verbatim>\<open>try\<close> block of the message handler as its last statement: on a transport that is
  not open nothing is transmitted and an exception, if any, is swallowed there.
\<close>

definition ws_send :: "out_msg \<Rightarrow> client \<Rightarrow> client" where
  "ws_send m c =
     (if readyState (ws c) = OPEN then c\<lparr>ws := (ws c)\<lparr>sent := sent (ws c) @ [m]\<rparr>\<rparr> else c)"

section \<open>Connection lifecycle\<close>

text \<open>\<^verbatim>\<open>wss.on('connection', ...)\<close>, lines 34-60.\<close>

definition connection :: "relay \<Rightarrow> nat \<Rightarrow> string \<Rightarrow> relay" where
  "connection s now clientIp =
     (let clientId = clientIdCounter s + 1;
          clientObj = \<lparr>ws = \<lparr>readyState = OPEN, sent = [MsgConnected clientId now]\<rparr>,
                       client_id = clientId, ip = clientIp, connectedAt = now,
                       symbol = Null, webhookId = Null, isLegacy = False,
                       ignoreUntil = now + 5000\<rparr>
      in s\<lparr>heap := (heap s)(clientId \<mapsto> clientObj),
           clients := set_add clientId (clients s),
           clientIdCounter := clientId\<rparr>)"

text \<open>
  The parsed client message, \<^verbatim>\<open>data = JSON.parse(message)\<close>, by the four properties the
  handler reads. A message that does not parse, or parses to \<^verbatim>\<open>null\<close> or a primitive,
  reaches no branch; it is the message whose properties are all \<^verbatim>\<open>undefined\<close>.
\<close>

record data =
  msg_type :: jsval
  msg_webhookId :: jsval
  msg_legacy :: jsval
  msg_symbol :: jsval

text \<open>
  The \<^verbatim>\<open>register\<close> branch, lines 67-103: a truthy \<^verbatim>\<open>data.webhookId\<close> selects the
  user-specific mode, otherwise \<^verbatim>\<open>data.legacy === true\<close> the legacy mode. Neither
  branch removes the client from a container.
\<close>

definition register :: "relay \<Rightarrow> nat \<Rightarrow> data \<Rightarrow> relay" where
  "register s clientId d =
     (case clients_get s clientId of
        None \<Rightarrow> s
      | Some client \<Rightarrow>
          if truthy (msg_webhookId d) then
            let k = msg_webhookId d;
                client' = client\<lparr>webhookId := k, isLegacy := False\<rparr>;
                wc = (if \<not> map_has k (webhookClients s) then map_set k [] (webhookClients s)
                      else webhookClients s)
            in s\<lparr>heap := (heap s)(clientId \<mapsto> ws_send (MsgRegistered k ''user-specific'') client'),
                 webhookClients := map_set k (set_add clientId (map_get k wc)) wc\<rparr>
          else if msg_legacy d = JBool True then
            let client' = client\<lparr>isLegacy := True, webhookId := Null\<rparr>
            in s\<lparr>heap := (heap s)(clientId \<mapsto> ws_send (MsgRegistered Null ''legacy'') client'),
                 legacyClients := set_add clientId (legacyClients s)\<rparr>
          else s)"

text \<open>The \<^verbatim>\<open>subscribe\<close> branch, lines 104-110.\<close>

definition subscribe :: "relay \<Rightarrow> nat \<Rightarrow> data \<Rightarrow> relay" where
  "subscribe s clientId d =
     (case clients_get s clientId of
        None \<Rightarrow> s
      | Some client \<Rightarrow> s\<lparr>heap := (heap s)(clientId \<mapsto> client\<lparr>symbol := msg_symbol d\<rparr>)\<rparr>)"

text \<open>
  The \<^verbatim>\<open>ping\<close> branch, lines 111-112: it writes to the transport captured by the
  handler, whether or not the connection is still in \<^verbatim>\<open>clients\<close>.
\<close>

definition ping :: "relay \<Rightarrow> nat \<Rightarrow> nat \<Rightarrow> relay" where
  "ping s now clientId =
     (case heap s clientId of
        None \<Rightarrow> s
      | Some client \<Rightarrow> s\<lparr>heap := (heap s)(clientId \<mapsto> ws_send (MsgPong now) client)\<rparr>)"

text \<open>The \<^verbatim>\<open>clear_session\<close> branch, lines 113-121.\<close>

definition clear_session :: "relay \<Rightarrow> nat \<Rightarrow> nat \<Rightarrow> relay" where
  "clear_session s now clientId =
     (case clients_get s clientId of
        None \<Rightarrow> s
      | Some client \<Rightarrow>
          s\<lparr>heap := (heap s)(clientId \<mapsto>
                 ws_send (MsgSessionCleared now) (client\<lparr>ignoreUntil := now + 10000\<rparr>))\<rparr>)"

text \<open>\<^verbatim>\<open>ws.on('message', ...)\<close>, lines 63-125.\<close>

definition on_message :: "relay \<Rightarrow> nat \<Rightarrow> nat \<Rightarrow> data \<Rightarrow> relay" where
  "on_message s now clientId d =
     (if msg_type d = JStr ''register'' then register s clientId d
      else if msg_type d = JStr ''subscribe'' then subscribe s clientId d
      else if msg_type d = JStr ''ping'' then ping s now clientId
      else if msg_type d = JStr ''clear_session'' then clear_session s now clientId
      else s)"

text \<open>
  \<^verbatim>\<open>ws.on('close', ...)\<close>, lines 127-143: the client leaves the bucket of its current
  \<^verbatim>\<open>webhookId\<close>, the bucket is deleted when that empties it, and the client leaves
  \<^verbatim>\<open>legacyClients\<close> and \<^verbatim>\<open>clients\<close>.
\<close>

definition on_close :: "relay \<Rightarrow> nat \<Rightarrow> relay" where
  "on_close s clientId =
     (let s' =
        (case clients_get s clientId of
           None \<Rightarrow> s
         | Some client \<Rightarrow>
             s\<lparr>webhookClients :=
                 (if truthy (webhookId client) \<and> map_has (webhookId client) (webhookClients s) then
                    let b = set_delete clientId (map_get (webhookId client) (webhookClients s));
                        wc = map_set (webhookId client) b (webhookClients s)
                    in if length b = 0 then map_delete (webhookId client) wc else wc
                  else webhookClients s),
               legacyClients := set_delete clientId (legacyClients s)\<rparr>)
      in s'\<lparr>clients := set_delete clientId (clients s')\<rparr>)"

text \<open>
  \<^verbatim>\<open>ws.on('error', ...)\<close>, lines 145-155: as the close handler, but the bucket is kept
  when the client was its last member.
\<close>

definition on_error :: "relay \<Rightarrow> nat \<Rightarrow> relay" where
  "on_error s clientId =
     (let s' =
        (case clients_get s clientId of
           None \<Rightarrow> s
         | Some client \<Rightarrow>
             s\<lparr>webhookClients :=
                 (if truthy (webhookId client) \<and> map_has (webhookId client) (webhookClients s) then
                    map_set (webhookId client)
                      (set_delete clientId (map_get (webhookId client) (webhookClients s)))
                      (webhookClients s)
                  else webhookClients s),
               legacyClients := set_delete clientId (legacyClients s)\<rparr>)
      in s'\<lparr>clients := set_delete clientId (clients s')\<rparr>)"

section \<open>Alert delivery\<close>

text \<open>
  \<^verbatim>\<open>client.ignoreUntil && Date.now() < client.ignoreUntil\<close>: the test both delivery
  endpoints make first.
\<close>

definition in_ignore_window :: "nat \<Rightarrow> client \<Rightarrow> bool" where
  "in_ignore_window now c = (ignoreUntil c \<noteq> 0 \<and> now < ignoreUntil c)"

text \<open>
  \<^verbatim>\<open>client.symbol && alert.symbol && client.symbol !== alert.symbol\<close>: the second test
  of the legacy endpoint.
\<close>

definition symbol_mismatch :: "alert \<Rightarrow> client \<Rightarrow> bool" where
  "symbol_mismatch a c =
     (truthy (symbol c) \<and> truthy (alert_symbol a) \<and> symbol c \<noteq> alert_symbol a)"

text \<open>
  The body of the three \<^verbatim>\<open>forEach\<close> loops, lines 192-203, 237-251 and 335-340: the
  early \<^verbatim>\<open>return\<close>s of the endpoint (\<open>skip\<close>), then the send to an open transport,
  which increments \<^verbatim>\<open>delivered\<close>. The loop state is the store and the counter.
\<close>

definition deliver ::
  "(client \<Rightarrow> bool) \<Rightarrow> out_msg \<Rightarrow> nat \<Rightarrow> (nat \<rightharpoonup> client) \<times> nat \<Rightarrow> (nat \<rightharpoonup> client) \<times> nat" where
  "deliver skip m r acc =
     (case fst acc r of
        None \<Rightarrow> acc
      | Some client \<Rightarrow>
          if skip client then acc
          else if readyState (ws client) = OPEN
               then ((fst acc)(r \<mapsto> ws_send m client), snd acc + 1)
               else acc)"

definition keyed_skip :: "nat \<Rightarrow> client \<Rightarrow> bool" where
  "keyed_skip now c = in_ignore_window now c"

definition legacy_skip :: "nat \<Rightarrow> alert \<Rightarrow> client \<Rightarrow> bool" where
  "legacy_skip now a c = (in_ignore_window now c \<or> symbol_mismatch a c)"

definition test_skip :: "client \<Rightarrow> bool" where
  "test_skip c = False"

record delivery_response =
  success :: bool
  message :: string
  deliveredTo :: nat

record legacy_response = delivery_response +
  timestamp :: nat

record keyed_response = legacy_response +
  resp_webhookId :: string

record test_response = delivery_response +
  resp_data :: alert

text \<open>
  \<^verbatim>\<open>app.post('/webhook/:webhookId/alert', ...)\<close>, lines 162-214. The route parameter is
  a string. One clock reading serves the whole request.
\<close>

definition post_webhook_alert :: "relay \<Rightarrow> nat \<Rightarrow> string \<Rightarrow> alert \<Rightarrow> relay \<times> keyed_response" where
  "post_webhook_alert s now wid a =
     (let none = (s, \<lparr>success = True, message = ''Alert received but no clients connected'',
                       deliveredTo = 0, timestamp = now, resp_webhookId = wid\<rparr>)
      in case map_of (webhookClients s) (JStr wid) of
           None \<Rightarrow> none
         | Some targetClients \<Rightarrow>
             if length targetClients = 0 then none
             else
               let m = MsgAlert a (Some wid) False now;
                   acc = fold (deliver (keyed_skip now) m) targetClients (heap s, 0)
               in (s\<lparr>heap := fst acc\<rparr>,
                   \<lparr>success = True, message = ''Alert delivered'', deliveredTo = snd acc,
                    timestamp = now, resp_webhookId = wid\<rparr>))"

text \<open>\<^verbatim>\<open>app.post('/alert', ...)\<close>, lines 220-261.\<close>

definition post_alert :: "relay \<Rightarrow> nat \<Rightarrow> alert \<Rightarrow> relay \<times> legacy_response" where
  "post_alert s now a =
     (let m = MsgAlert a None True now;
          acc = fold (deliver (legacy_skip now a) m) (legacyClients s) (heap s, 0)
      in (s\<lparr>heap := fst acc\<rparr>,
          \<lparr>success = True, message = ''Alert received and broadcast to legacy clients'',
           deliveredTo = snd acc, timestamp = now\<rparr>))"

text \<open>\<^verbatim>\<open>app.get('/test', ...)\<close>, lines 315-348.\<close>

definition testAlert :: alert where
  "testAlert = \<lparr>alert_symbol = JStr ''TEST'',
     alert_fields = [(''type'', JStr ''LEVELS''), (''t1'', JNum (201 / 2)), (''t2'', JNum 101),
                     (''t3'', JNum (203 / 2)), (''eject'', JNum (199 / 2)), (''entry'', JNum 100),
                     (''source'', JStr ''relay-test'')]\<rparr>"

definition get_test :: "relay \<Rightarrow> nat \<Rightarrow> relay \<times> test_response" where
  "get_test s now =
     (let m = MsgAlert testAlert None False now;
          acc = fold (deliver test_skip m) (clients s) (heap s, 0)
      in (s\<lparr>heap := fst acc\<rparr>,
          \<lparr>success = True, message = ''Test alert sent'', deliveredTo = snd acc,
           resp_data = testAlert\<rparr>))"

section \<open>Status\<close>

text \<open>
  \<^verbatim>\<open>app.get('/status', ...)\<close>, lines 286-308. An entry of \<^verbatim>\<open>clientList\<close> has the
  connection id, \<^verbatim>\<open>connectedAt\<close>, \<^verbatim>\<open>symbol\<close>, \<^verbatim>\<open>isLegacy\<close> and, for a truthy
  \<^verbatim>\<open>webhookId\<close>, \<^verbatim>\<open>webhookId.substring(0, 8) + '...'\<close>. A truthy \<^verbatim>\<open>webhookId\<close>
  that is not a string has no \<^verbatim>\<open>substring\<close> method: the call throws and the request
  fails. (The loops below pass over a reference without an object in the store; in a
  state the server can reach, every reference of \<^verbatim>\<open>clients\<close> has one.)
\<close>

datatype js_error = TypeError

record client_summary =
  sum_id :: nat
  sum_connectedAt :: nat
  sum_symbol :: jsval
  sum_webhookId :: jsval
  sum_isLegacy :: bool

definition redact :: "jsval \<Rightarrow> js_error + jsval" where
  "redact w =
     (if truthy w then
        (case w of JStr k \<Rightarrow> Inr (JStr (take 8 k @ ''...'')) | _ \<Rightarrow> Inl TypeError)
      else Inr Null)"

definition summarize :: "nat \<Rightarrow> client \<Rightarrow> js_error + client_summary" where
  "summarize i c =
     (case redact (webhookId c) of
        Inl e \<Rightarrow> Inl e
      | Inr w \<Rightarrow> Inr \<lparr>sum_id = i, sum_connectedAt = connectedAt c, sum_symbol = symbol c,
                     sum_webhookId = w, sum_isLegacy = isLegacy c\<rparr>)"

fun clientList :: "(nat \<rightharpoonup> client) \<Rightarrow> nat list \<Rightarrow> js_error + client_summary list" where
  "clientList h [] = Inr []"
| "clientList h (i # rest) =
     (case h i of
        None \<Rightarrow> clientList h rest
      | Some c \<Rightarrow>
          (case summarize i c of
             Inl e \<Rightarrow> Inl e
           | Inr x \<Rightarrow> (case clientList h rest of Inl e \<Rightarrow> Inl e | Inr xs \<Rightarrow> Inr (x # xs))))"

record status_response =
  st_status :: string
  st_version :: string
  st_connectedClients :: nat
  st_webhookIds :: nat
  st_legacyClients :: nat
  st_clients :: "client_summary list"
  st_uptime :: rat
  st_timestamp :: nat

definition get_status :: "relay \<Rightarrow> nat \<Rightarrow> rat \<Rightarrow> js_error + status_response" where
  "get_status s now uptime =
     (case clientList (heap s) (clients s) of
        Inl e \<Rightarrow> Inl e
      | Inr l \<Rightarrow> Inr \<lparr>st_status = ''running'', st_version = ''1.1.43'',
                     st_connectedClients = length (clients s),
                     st_webhookIds = length (webhookClients s),
                     st_legacyClients = length (legacyClients s),
                     st_clients = l, st_uptime = uptime, st_timestamp = now\<rparr>)"

section \<open>Runs of the server\<close>

text \<open>
  What can happen to the server, each with the reading of the clock its handler takes:
  a connection, a message on connection \<open>i\<close>, the close or error event of connection
  \<open>i\<close>, a change of the \<^verbatim>\<open>readyState\<close> of its transport (made by the WebSocket
  library, not by the relay), and the three requests that deliver.
\<close>

datatype event =
    Connection string
  | Message nat data
  | Close nat
  | Error nat
  | Transport nat ready_state
  | PostWebhookAlert string alert
  | PostAlert alert
  | GetTest

definition transport :: "relay \<Rightarrow> nat \<Rightarrow> ready_state \<Rightarrow> relay" where
  "transport s i rs =
     (case heap s i of
        None \<Rightarrow> s
      | Some c \<Rightarrow> s\<lparr>heap := (heap s)(i \<mapsto> c\<lparr>ws := (ws c)\<lparr>readyState := rs\<rparr>\<rparr>)\<rparr>)"

fun step :: "relay \<Rightarrow> nat \<times> event \<Rightarrow> relay" where
  "step s (now, Connection clientIp) = connection s now clientIp"
| "step s (now, Message i d) = on_message s now i d"
| "step s (now, Close i) = on_close s i"
| "step s (now, Error i) = on_error s i"
| "step s (now, Transport i rs) = transport s i rs"
| "step s (now, PostWebhookAlert wid a) = fst (post_webhook_alert s now wid a)"
| "step s (now, PostAlert a) = fst (post_alert s now a)"
| "step s (now, GetTest) = fst (get_test s now)"

fun run :: "relay \<Rightarrow> (nat \<times> event) list \<Rightarrow> relay" where
  "run s [] = s"
| "run s (e # es) = run (step s e) es"

text \<open>The states the server can be in.\<close>

inductive reachable :: "relay \<Rightarrow> bool" where
  reachable_init: "reachable init"
| reachable_step: "reachable s \<Longrightarrow> reachable (step s e)"

text \<open>A clock that never goes back: each reading is at least the one before.\<close>

fun clock_ok :: "nat \<Rightarrow> (nat \<times> event) list \<Rightarrow> bool" where
  "clock_ok t [] = True"
| "clock_ok t (e # es) = (t \<le> fst e \<and> clock_ok (fst e) es)"

fun last_time :: "nat \<Rightarrow> (nat \<times> event) list \<Rightarrow> nat" where
  "last_time t [] = t"
| "last_time t (e # es) = last_time (fst e) es"

section \<open>Notions the statements use\<close>

text \<open>Membership of a connection in the two index containers.\<close>

definition bound_to :: "relay \<Rightarrow> jsval \<Rightarrow> nat list" where
  "bound_to s k = map_get k (webhookClients s)"

definition in_bucket :: "relay \<Rightarrow> jsval \<Rightarrow> nat \<Rightarrow> bool" where
  "in_bucket s k i = (i \<in> set (bound_to s k))"

definition in_legacy :: "relay \<Rightarrow> nat \<Rightarrow> bool" where
  "in_legacy s i = (i \<in> set (legacyClients s))"

text \<open>
  What one visit of a delivery loop makes of a client object, and whether the visit
  increments the counter.
\<close>

definition visited :: "(client \<Rightarrow> bool) \<Rightarrow> out_msg \<Rightarrow> client \<Rightarrow> client" where
  "visited skip m c = (if skip c then c else ws_send m c)"

definition counted :: "(client \<Rightarrow> bool) \<Rightarrow> (nat \<rightharpoonup> client) \<Rightarrow> nat \<Rightarrow> bool" where
  "counted skip h r =
     (case h r of None \<Rightarrow> False | Some c \<Rightarrow> \<not> skip c \<and> readyState (ws c) = OPEN)"

text \<open>
  The two facts about the object behind a reference that the loops test: its transport
  is open; the clock reading lies in its ignore window.
\<close>

definition transport_open :: "relay \<Rightarrow> nat \<Rightarrow> bool" where
  "transport_open s j =
     (case heap s j of None \<Rightarrow> False | Some c \<Rightarrow> readyState (ws c) = OPEN)"

definition ignoring :: "relay \<Rightarrow> nat \<Rightarrow> nat \<Rightarrow> bool" where
  "ignoring s now j = (case heap s j of None \<Rightarrow> False | Some c \<Rightarrow> in_ignore_window now c)"

definition mismatching :: "relay \<Rightarrow> alert \<Rightarrow> nat \<Rightarrow> bool" where
  "mismatching s a j = (case heap s j of None \<Rightarrow> False | Some c \<Rightarrow> symbol_mismatch a c)"

text \<open>A client object with one more message written to its transport.\<close>

definition received :: "out_msg \<Rightarrow> client \<Rightarrow> client" where
  "received m c = c\<lparr>ws := (ws c)\<lparr>sent := sent (ws c) @ [m]\<rparr>\<rparr>"

text \<open>
  The containers are a Map and Sets: no key and no member is held twice.
\<close>

definition well_formed :: "relay \<Rightarrow> bool" where
  "well_formed s =
     (distinct (clients s) \<and> distinct (legacyClients s) \<and>
      (\<forall>k b. map_of (webhookClients s) k = Some b \<longrightarrow> distinct b))"

text \<open>The two binding fields of every client object are not set together.\<close>

definition exclusive_fields :: "relay \<Rightarrow> bool" where
  "exclusive_fields s = (\<forall>i c. heap s i = Some c \<longrightarrow> \<not> (isLegacy c \<and> truthy (webhookId c)))"

text \<open>No deadline lies more than the 10 s of \<^verbatim>\<open>clear_session\<close> past the time \<open>t\<close>.\<close>

definition deadlines_within :: "nat \<Rightarrow> relay \<Rightarrow> bool" where
  "deadlines_within t s = (\<forall>i c. heap s i = Some c \<longrightarrow> ignoreUntil c \<le> t + 10000)"

text \<open>The deadline \<^verbatim>\<open>ignoreUntil\<close> of the client object behind a reference.\<close>

definition deadline :: "relay \<Rightarrow> nat \<Rightarrow> nat option" where
  "deadline s i = map_option ignoreUntil (heap s i)"

text \<open>
  What the status listing can show of a \<^verbatim>\<open>webhookId\<close>: of a string its first eight
  code units. Two client objects are listed alike when they agree on \<^verbatim>\<open>connectedAt\<close>,
  \<^verbatim>\<open>symbol\<close>, \<^verbatim>\<open>isLegacy\<close> and on that part of \<^verbatim>\<open>webhookId\<close>.
\<close>

definition key_prefix :: "jsval \<Rightarrow> jsval" where
  "key_prefix w = (case w of JStr k \<Rightarrow> JStr (take 8 k) | _ \<Rightarrow> w)"

definition listed_alike :: "client \<Rightarrow> client \<Rightarrow> bool" where
  "listed_alike c c' =
     (connectedAt c = connectedAt c' \<and> symbol c = symbol c' \<and> isLegacy c = isLegacy c' \<and>
      key_prefix (webhookId c) = key_prefix (webhookId c'))"

text \<open>The client messages of the protocol, as the handler parses them.\<close>

definition register_key :: "string \<Rightarrow> data" where
  "register_key k = \<lparr>msg_type = JStr ''register'', msg_webhookId = JStr k,
                     msg_legacy = Undefined, msg_symbol = Undefined\<rparr>"

definition register_legacy :: data where
  "register_legacy = \<lparr>msg_type = JStr ''register'', msg_webhookId = Undefined,
                      msg_legacy = JBool True, msg_symbol = Undefined\<rparr>"

definition subscribe_symbol :: "string \<Rightarrow> data" where
  "subscribe_symbol y = \<lparr>msg_type = JStr ''subscribe'', msg_webhookId = Undefined,
                         msg_legacy = Undefined, msg_symbol = JStr y\<rparr>"

definition clear_session_msg :: data where
  "clear_session_msg = \<lparr>msg_type = JStr ''clear_session'', msg_webhookId = Undefined,
                        msg_legacy = Undefined, msg_symbol = Undefined\<rparr>"

text \<open>
  Two properties of the containers that the handlers other than the error handler keep:
  no bucket of \<^verbatim>\<open>webhookClients\<close> is empty; and every connection of \<^verbatim>\<open>clients\<close>
  has its object in the store, with \<^verbatim>\<open>legacyClients\<close> holding connections of
  \<^verbatim>\<open>clients\<close> only.
\<close>

definition no_empty_bucket :: "relay \<Rightarrow> bool" where
  "no_empty_bucket s = (\<forall>k b. map_of (webhookClients s) k = Some b \<longrightarrow> b \<noteq> [])"

fun is_error :: "event \<Rightarrow> bool" where
  "is_error (Error i) = True"
| "is_error _ = False"

definition legacy_live :: "relay \<Rightarrow> bool" where
  "legacy_live s =
     (set (clients s) \<subseteq> dom (heap s) \<and> set (legacyClients s) \<subseteq> set (clients s))"

section \<open>Example runs\<close>

text \<open>
  Two connections: the first registers under the key \<^verbatim>\<open>abc123\<close>, the second as
  legacy, and both subscribe to \<^verbatim>\<open>BTCUSD\<close>. \<open>client_one\<close> and \<open>client_two\<close> are their
  client objects after the run.
\<close>

definition trace_two :: "(nat \<times> event) list" where
  "trace_two =
     [(0, Connection ''10.0.0.1''), (1, Message 1 (register_key ''abc123'')),
      (2, Message 1 (subscribe_symbol ''BTCUSD'')),
      (3, Connection ''10.0.0.2''), (4, Message 2 register_legacy),
      (5, Message 2 (subscribe_symbol ''BTCUSD''))]"

definition client_one :: client where
  "client_one =
     \<lparr>ws = \<lparr>readyState = OPEN,
             sent = [MsgConnected 1 0, MsgRegistered (JStr ''abc123'') ''user-specific'']\<rparr>,
      client_id = 1, ip = ''10.0.0.1'', connectedAt = 0, symbol = JStr ''BTCUSD'',
      webhookId = JStr ''abc123'', isLegacy = False, ignoreUntil = 5000\<rparr>"

definition client_two :: client where
  "client_two =
     \<lparr>ws = \<lparr>readyState = OPEN, sent = [MsgConnected 2 3, MsgRegistered Null ''legacy'']\<rparr>,
      client_id = 2, ip = ''10.0.0.2'', connectedAt = 3, symbol = JStr ''BTCUSD'',
      webhookId = Null, isLegacy = True, ignoreUntil = 5003\<rparr>"

text \<open>Alerts with another symbol, with the subscribed symbol, and with none.\<close>

definition ethusd :: alert where
  "ethusd = \<lparr>alert_symbol = JStr ''ETHUSD'', alert_fields = [(''price'', JNum 1850)]\<rparr>"

definition btcusd :: alert where
  "btcusd = \<lparr>alert_symbol = JStr ''BTCUSD'', alert_fields = [(''price'', JNum 64000)]\<rparr>"

definition unlabelled :: alert where
  "unlabelled = \<lparr>alert_symbol = Undefined, alert_fields = [(''price'', JNum 7)]\<rparr>"

text \<open>
  One connection that registers under \<^verbatim>\<open>abc123\<close> and then again, under another key or
  as legacy; and one that registers once and then meets a transport error or a close.
\<close>

definition trace_rekey :: "(nat \<times> event) list" where
  "trace_rekey =
     [(0, Connection ''10.0.0.1''), (1, Message 1 (register_key ''abc123'')),
      (2, Message 1 (register_key ''xyz789''))]"

definition trace_relegacy :: "(nat \<times> event) list" where
  "trace_relegacy =
     [(0, Connection ''10.0.0.1''), (1, Message 1 (register_key ''abc123'')),
      (2, Message 1 register_legacy)]"

definition trace_error :: "(nat \<times> event) list" where
  "trace_error =
     [(0, Connection ''10.0.0.1''), (1, Message 1 (register_key ''abc123'')), (2, Error 1)]"

definition trace_close :: "(nat \<times> event) list" where
  "trace_close =
     [(0, Connection ''10.0.0.1''), (1, Message 1 (register_key ''abc123'')), (2, Close 1)]"

text \<open>
  Two runs whose only connection differs in address, in the key beyond its eighth
  character and in its deadline.
\<close>

definition trace_long_key :: "(nat \<times> event) list" where
  "trace_long_key =
     [(0, Connection ''10.0.0.1''), (1, Message 1 (register_key ''abc12345-first-secret''))]"

definition trace_other_key :: "(nat \<times> event) list" where
  "trace_other_key =
     [(0, Connection ''172.16.0.9''), (1, Message 1 (register_key ''abc12345-other'')),
      (2, Message 1 clear_session_msg)]"

section \<open>Containers\<close>

lemma set_set_add: "set (set_add x xs) = insert x (set xs)"
  by (auto simp: set_add_def)

lemma distinct_set_add: "distinct xs \<Longrightarrow> distinct (set_add x xs)"
  by (simp add: set_add_def)

lemma set_set_delete: "set (set_delete x xs) = set xs - {x}"
  by (simp add: set_delete_def)

lemma distinct_set_delete: "distinct xs \<Longrightarrow> distinct (set_delete x xs)"
  by (simp add: set_delete_def distinct_removeAll)

lemma map_of_map_set: "map_of (map_set k v m) = (map_of m)(k \<mapsto> v)"
  by (simp add: map_set_def update_conv')

lemma map_of_map_delete: "map_of (map_delete k m) = (map_of m)(k := None)"
  by (simp add: map_delete_def delete_conv')

lemma map_get_map_set: "map_get k' (map_set k v m) = (if k' = k then v else map_get k' m)"
  by (simp add: map_get_def map_of_map_set)

lemma map_get_map_delete: "map_get k' (map_delete k m) = (if k' = k then [] else map_get k' m)"
  by (simp add: map_get_def map_of_map_delete)

section \<open>The delivery loop\<close>

lemma deliver_eq:
  "deliver skip m r (h, d) =
     ((\<lambda>x. if x = r then map_option (visited skip m) (h r) else h x),
      if counted skip h r then d + 1 else d)"
  by (auto simp: deliver_def visited_def counted_def ws_send_def fun_eq_iff split: option.splits)

lemma fold_deliver:
  "distinct rs \<Longrightarrow>
   fold (deliver skip m) rs (h, d) =
     ((\<lambda>x. if x \<in> set rs then map_option (visited skip m) (h x) else h x),
      d + length (filter (counted skip h) rs))"
proof (induction rs arbitrary: h d)
  case Nil
  then show ?case by simp
next
  case (Cons r rs)
  then have r: "r \<notin> set rs" and drs: "distinct rs" by simp_all
  define h' where "h' = (\<lambda>x. if x = r then map_option (visited skip m) (h r) else h x)"
  define d' where "d' = (if counted skip h r then d + 1 else d)"
  have same: "\<And>x. x \<in> set rs \<Longrightarrow> counted skip h' x = counted skip h x"
    using r by (auto simp: counted_def h'_def)
  have cnt: "filter (counted skip h') rs = filter (counted skip h) rs"
    by (rule filter_cong) (simp_all add: same)
  have "fold (deliver skip m) (r # rs) (h, d) = fold (deliver skip m) rs (h', d')"
    by (simp add: deliver_eq h'_def d'_def)
  also have "\<dots> = ((\<lambda>x. if x \<in> set rs then map_option (visited skip m) (h' x) else h' x),
                    d' + length (filter (counted skip h') rs))"
    by (rule Cons.IH [OF drs])
  also have "\<dots> = ((\<lambda>x. if x \<in> set (r # rs) then map_option (visited skip m) (h x) else h x),
                    d + length (filter (counted skip h) (r # rs)))"
    unfolding cnt using r by (auto simp: h'_def d'_def fun_eq_iff)
  finally show ?case .
qed

lemma visited_fields [simp]:
  "webhookId (visited skip m c) = webhookId c"
  "isLegacy (visited skip m c) = isLegacy c"
  "ignoreUntil (visited skip m c) = ignoreUntil c"
  "symbol (visited skip m c) = symbol c"
  "connectedAt (visited skip m c) = connectedAt c"
  "readyState (ws (visited skip m c)) = readyState (ws c)"
  by (simp_all add: visited_def ws_send_def)

section \<open>The delivery endpoints and the representation invariant\<close>

lemma post_webhook_alert_heap:
  assumes "well_formed s"
  shows "heap (fst (post_webhook_alert s now wid a)) =
           (\<lambda>x. if x \<in> set (bound_to s (JStr wid))
                then map_option (visited (keyed_skip now) (MsgAlert a (Some wid) False now)) (heap s x)
                else heap s x)"
proof (cases "map_of (webhookClients s) (JStr wid)")
  case None
  then show ?thesis by (simp add: post_webhook_alert_def bound_to_def map_get_def)
next
  case (Some b)
  then have "distinct b" using assms by (simp add: well_formed_def)
  then show ?thesis
    using Some by (simp add: post_webhook_alert_def bound_to_def map_get_def fold_deliver Let_def)
qed

lemma post_webhook_alert_count:
  assumes "well_formed s"
  shows "deliveredTo (snd (post_webhook_alert s now wid a)) =
           length (filter (counted (keyed_skip now) (heap s)) (bound_to s (JStr wid)))"
proof (cases "map_of (webhookClients s) (JStr wid)")
  case None
  then show ?thesis by (simp add: post_webhook_alert_def bound_to_def map_get_def)
next
  case (Some b)
  then have "distinct b" using assms by (simp add: well_formed_def)
  then show ?thesis
    using Some by (simp add: post_webhook_alert_def bound_to_def map_get_def fold_deliver Let_def)
qed

lemma post_webhook_alert_frame:
  "clients (fst (post_webhook_alert s now wid a)) = clients s"
  "webhookClients (fst (post_webhook_alert s now wid a)) = webhookClients s"
  "legacyClients (fst (post_webhook_alert s now wid a)) = legacyClients s"
  "clientIdCounter (fst (post_webhook_alert s now wid a)) = clientIdCounter s"
  by (simp_all add: post_webhook_alert_def Let_def split: option.splits)

lemma post_alert_heap:
  "well_formed s \<Longrightarrow>
   heap (fst (post_alert s now a)) =
     (\<lambda>x. if x \<in> set (legacyClients s)
          then map_option (visited (legacy_skip now a) (MsgAlert a None True now)) (heap s x)
          else heap s x)"
  by (simp add: post_alert_def well_formed_def fold_deliver Let_def)

lemma post_alert_count:
  "well_formed s \<Longrightarrow>
   deliveredTo (snd (post_alert s now a)) =
     length (filter (counted (legacy_skip now a) (heap s)) (legacyClients s))"
  by (simp add: post_alert_def well_formed_def fold_deliver Let_def)

lemma post_alert_frame:
  "clients (fst (post_alert s now a)) = clients s"
  "webhookClients (fst (post_alert s now a)) = webhookClients s"
  "legacyClients (fst (post_alert s now a)) = legacyClients s"
  "clientIdCounter (fst (post_alert s now a)) = clientIdCounter s"
  by (simp_all add: post_alert_def Let_def)

lemma get_test_heap:
  "well_formed s \<Longrightarrow>
   heap (fst (get_test s now)) =
     (\<lambda>x. if x \<in> set (clients s)
          then map_option (visited test_skip (MsgAlert testAlert None False now)) (heap s x)
          else heap s x)"
  by (simp add: get_test_def well_formed_def fold_deliver Let_def)

lemma get_test_count:
  "well_formed s \<Longrightarrow>
   deliveredTo (snd (get_test s now)) = length (filter (counted test_skip (heap s)) (clients s))"
  by (simp add: get_test_def well_formed_def fold_deliver Let_def)

lemma get_test_frame:
  "clients (fst (get_test s now)) = clients s"
  "webhookClients (fst (get_test s now)) = webhookClients s"
  "legacyClients (fst (get_test s now)) = legacyClients s"
  "clientIdCounter (fst (get_test s now)) = clientIdCounter s"
  by (simp_all add: get_test_def Let_def)

lemma well_formed_frame:
  "clients s' = clients s \<Longrightarrow> webhookClients s' = webhookClients s \<Longrightarrow>
   legacyClients s' = legacyClients s \<Longrightarrow> well_formed s \<Longrightarrow> well_formed s'"
  by (simp add: well_formed_def)

lemma distinct_map_get:
  "\<forall>k b. map_of m k = Some b \<longrightarrow> distinct b \<Longrightarrow> distinct (map_get k m)"
  by (simp add: map_get_def split: option.splits)

lemma well_formed_connection: "well_formed s \<Longrightarrow> well_formed (connection s now clientIp)"
  by (simp add: well_formed_def connection_def Let_def distinct_set_add)

lemma well_formed_register: "well_formed s \<Longrightarrow> well_formed (register s i d)"
  by (auto simp: well_formed_def register_def Let_def distinct_set_add map_of_map_set map_get_map_set
      distinct_map_get split: option.splits if_splits)

lemma well_formed_on_message: "well_formed s \<Longrightarrow> well_formed (on_message s now i d)"
  by (auto simp: on_message_def well_formed_register subscribe_def ping_def clear_session_def
      intro: well_formed_frame split: option.splits)

lemma well_formed_on_close: "well_formed s \<Longrightarrow> well_formed (on_close s i)"
  by (auto simp: well_formed_def on_close_def Let_def distinct_set_delete map_of_map_set map_of_map_delete
      distinct_map_get split: option.splits if_splits)

lemma well_formed_on_error: "well_formed s \<Longrightarrow> well_formed (on_error s i)"
  by (auto simp: well_formed_def on_error_def Let_def distinct_set_delete map_of_map_set distinct_map_get
      split: option.splits if_splits)

lemma well_formed_transport: "well_formed s \<Longrightarrow> well_formed (transport s i rs)"
  by (auto simp: transport_def intro: well_formed_frame split: option.splits)

lemma well_formed_step: "well_formed s \<Longrightarrow> well_formed (step s e)"
proof (cases e)
  case (Pair now ev)
  assume "well_formed s"
  then show ?thesis
    unfolding Pair
    by (cases ev)
       (simp_all add: well_formed_connection well_formed_on_message well_formed_on_close well_formed_on_error well_formed_transport
          well_formed_frame [OF post_webhook_alert_frame(1,2,3)] well_formed_frame [OF post_alert_frame(1,2,3)]
          well_formed_frame [OF get_test_frame(1,2,3)])
qed

lemma well_formed_init: "well_formed init"
  by (simp add: well_formed_def init_def)

lemma reachable_well_formed: "reachable s \<Longrightarrow> well_formed s"
  by (induction rule: reachable.induct) (simp_all add: well_formed_init well_formed_step)

lemma reachable_run: "reachable s \<Longrightarrow> reachable (run s es)"
  by (induction es arbitrary: s) (simp_all add: reachable_step)

section \<open>What each endpoint does to a connection\<close>

lemma counted_keyed:
  "counted (keyed_skip now) (heap s) = (\<lambda>j. transport_open s j \<and> \<not> ignoring s now j)"
  by (auto simp: counted_def keyed_skip_def transport_open_def ignoring_def fun_eq_iff
      split: option.splits)

lemma counted_legacy:
  "counted (legacy_skip now a) (heap s) =
     (\<lambda>j. transport_open s j \<and> \<not> ignoring s now j \<and> \<not> mismatching s a j)"
  by (auto simp: counted_def legacy_skip_def transport_open_def ignoring_def mismatching_def
      fun_eq_iff split: option.splits)

lemma counted_test: "counted test_skip (heap s) = transport_open s"
  by (auto simp: counted_def test_skip_def transport_open_def fun_eq_iff split: option.splits)

lemma visited_eq:
  "visited skip m c = (if \<not> skip c \<and> readyState (ws c) = OPEN then received m c else c)"
  by (simp add: visited_def ws_send_def received_def)

lemma keyed_outcome:
  assumes "reachable s" and "heap s i = Some c" and "in_bucket s (JStr wid) i"
  shows "heap (fst (post_webhook_alert s now wid a)) i =
           Some (if \<not> in_ignore_window now c \<and> readyState (ws c) = OPEN
                 then received (MsgAlert a (Some wid) False now) c else c)"
  using assms
  by (simp add: post_webhook_alert_heap reachable_well_formed in_bucket_def visited_eq keyed_skip_def)

lemma keyed_count:
  assumes "reachable s"
  shows "deliveredTo (snd (post_webhook_alert s now wid a)) =
           length (filter (\<lambda>j. transport_open s j \<and> \<not> ignoring s now j) (bound_to s (JStr wid)))"
  using assms by (simp add: post_webhook_alert_count reachable_well_formed counted_keyed)

lemma legacy_outcome:
  assumes "reachable s" and "heap s i = Some c" and "in_legacy s i"
  shows "heap (fst (post_alert s now a)) i =
           Some (if \<not> in_ignore_window now c \<and> \<not> symbol_mismatch a c \<and> readyState (ws c) = OPEN
                 then received (MsgAlert a None True now) c else c)"
  using assms
  by (simp add: post_alert_heap reachable_well_formed in_legacy_def visited_eq legacy_skip_def)

lemma legacy_count:
  assumes "reachable s"
  shows "deliveredTo (snd (post_alert s now a)) =
           length (filter (\<lambda>j. transport_open s j \<and> \<not> ignoring s now j \<and> \<not> mismatching s a j)
                     (legacyClients s))"
  using assms by (simp add: post_alert_count reachable_well_formed counted_legacy)

lemma test_outcome:
  assumes "reachable s" and "heap s i = Some c" and "i \<in> set (clients s)"
  shows "heap (fst (get_test s now)) i =
           Some (if readyState (ws c) = OPEN
                 then received (MsgAlert testAlert None False now) c else c)"
  using assms
  by (simp add: get_test_heap reachable_well_formed visited_eq test_skip_def)

lemma test_count:
  assumes "reachable s"
  shows "deliveredTo (snd (get_test s now)) = length (filter (transport_open s) (clients s))"
  using assms by (simp add: get_test_count reachable_well_formed counted_test)

lemma in_window_iff: "in_ignore_window now c \<longleftrightarrow> now < ignoreUntil c"
  by (auto simp: in_ignore_window_def)

section \<open>The binding fields\<close>

lemma ws_send_fields [simp]:
  "webhookId (ws_send m c) = webhookId c"
  "isLegacy (ws_send m c) = isLegacy c"
  "ignoreUntil (ws_send m c) = ignoreUntil c"
  "symbol (ws_send m c) = symbol c"
  "connectedAt (ws_send m c) = connectedAt c"
  by (simp_all add: ws_send_def)

lemma exclusive_fields_init: "exclusive_fields init"
  by (simp add: exclusive_fields_def init_def)

lemma exclusive_fields_on_message:
  "exclusive_fields s \<Longrightarrow> exclusive_fields (on_message s now i d)"
  by (auto simp: exclusive_fields_def on_message_def register_def subscribe_def ping_def
      clear_session_def clients_get_def Let_def split: option.splits if_splits)

lemma exclusive_fields_step:
  assumes "well_formed s" and "exclusive_fields s"
  shows "exclusive_fields (step s e)"
proof (cases e)
  case (Pair now ev)
  show ?thesis
  proof (cases ev)
    case (Connection clientIp)
    then show ?thesis
      using assms(2) by (auto simp: Pair exclusive_fields_def connection_def Let_def)
  next
    case (Message i d)
    then show ?thesis
      using assms(2) by (simp add: Pair exclusive_fields_on_message)
  next
    case (Close i)
    then show ?thesis
      using assms(2)
      by (auto simp: Pair exclusive_fields_def on_close_def Let_def split: option.splits)
  next
    case (Error i)
    then show ?thesis
      using assms(2)
      by (auto simp: Pair exclusive_fields_def on_error_def Let_def split: option.splits)
  next
    case (Transport i rs)
    then show ?thesis
      using assms(2)
      by (auto simp: Pair exclusive_fields_def transport_def split: option.splits if_splits)
  next
    case (PostWebhookAlert wid a)
    then show ?thesis
      using assms
      by (auto simp: Pair exclusive_fields_def post_webhook_alert_heap split: if_splits)
  next
    case (PostAlert a)
    then show ?thesis
      using assms by (auto simp: Pair exclusive_fields_def post_alert_heap split: if_splits)
  next
    case GetTest
    then show ?thesis
      using assms by (auto simp: Pair exclusive_fields_def get_test_heap split: if_splits)
  qed
qed

lemma reachable_exclusive_fields: "reachable s \<Longrightarrow> exclusive_fields s"
  by (induction rule: reachable.induct)
     (simp_all add: exclusive_fields_init exclusive_fields_step reachable_well_formed)

section \<open>Deadlines under a clock that never goes back\<close>

lemma deadlines_within_mono: "deadlines_within t s \<Longrightarrow> t \<le> t' \<Longrightarrow> deadlines_within t' s"
  by (fastforce simp: deadlines_within_def)

lemma deadlines_within_on_message:
  "deadlines_within now s \<Longrightarrow> deadlines_within now (on_message s now i d)"
  by (auto simp: deadlines_within_def on_message_def register_def subscribe_def ping_def
      clear_session_def clients_get_def Let_def split: option.splits if_splits)

lemma deadlines_within_step:
  assumes "well_formed s" and "deadlines_within t s" and "t \<le> now"
  shows "deadlines_within now (step s (now, ev))"
proof -
  have pre: "deadlines_within now s"
    using assms(2,3) by (rule deadlines_within_mono)
  show ?thesis
  proof (cases ev)
    case (Connection clientIp)
    then show ?thesis
      using pre by (auto simp: deadlines_within_def connection_def Let_def)
  next
    case (Message i d)
    then show ?thesis
      using pre by (simp add: deadlines_within_on_message)
  next
    case (Close i)
    then show ?thesis
      using pre by (auto simp: deadlines_within_def on_close_def Let_def split: option.splits)
  next
    case (Error i)
    then show ?thesis
      using pre by (auto simp: deadlines_within_def on_error_def Let_def split: option.splits)
  next
    case (Transport i rs)
    then show ?thesis
      using pre by (auto simp: deadlines_within_def transport_def split: option.splits if_splits)
  next
    case (PostWebhookAlert wid a)
    then show ?thesis
      using pre assms(1)
      by (auto simp: deadlines_within_def post_webhook_alert_heap split: if_splits)
  next
    case (PostAlert a)
    then show ?thesis
      using pre assms(1) by (auto simp: deadlines_within_def post_alert_heap split: if_splits)
  next
    case GetTest
    then show ?thesis
      using pre assms(1) by (auto simp: deadlines_within_def get_test_heap split: if_splits)
  qed
qed

lemma deadlines_within_run:
  "reachable s \<Longrightarrow> deadlines_within t s \<Longrightarrow> clock_ok t es \<Longrightarrow>
   deadlines_within (last_time t es) (run s es)"
proof (induction es arbitrary: s t)
  case Nil
  then show ?case by simp
next
  case (Cons e es)
  obtain now ev where e: "e = (now, ev)" by (cases e)
  from Cons.prems have "t \<le> now" and ok: "clock_ok now es" by (simp_all add: e)
  with Cons.prems have "deadlines_within now (step s (now, ev))"
    by (simp add: deadlines_within_step reachable_well_formed)
  moreover have "reachable (step s (now, ev))"
    using Cons.prems(1) by (rule reachable_step)
  ultimately show ?case
    using Cons.IH [of "step s (now, ev)" now] ok by (simp add: e)
qed

lemma deadlines_within_init: "deadlines_within 0 init"
  by (simp add: deadlines_within_def init_def)

lemma clear_session_deadline:
  assumes "msg_type d = JStr ''clear_session''"
  shows "deadline (on_message s now i d) j =
           (if j = i \<and> clients_get s i \<noteq> None then Some (now + 10000) else deadline s j)"
  using assms
  by (auto simp: deadline_def on_message_def clear_session_def split: option.splits)

lemma clear_session_clients:
  assumes "msg_type d = JStr ''clear_session''"
  shows "clients_get (on_message s now i d) i = None \<longleftrightarrow> clients_get s i = None"
  using assms
  by (auto simp: on_message_def clear_session_def clients_get_def split: option.splits)

section \<open>The status listing\<close>

lemma redact_key_prefix: "key_prefix w = key_prefix w' \<Longrightarrow> redact w = redact w'"
  by (cases w; cases w') (auto simp: key_prefix_def redact_def)

lemma summarize_alike:
  assumes "listed_alike c c'"
  shows "summarize i c = summarize i c'"
proof -
  have "redact (webhookId c) = redact (webhookId c')"
    using assms by (intro redact_key_prefix) (simp add: listed_alike_def)
  then show ?thesis
    using assms by (simp add: summarize_def listed_alike_def split: sum.splits)
qed

lemma clientList_alike:
  "\<forall>i\<in>set ids. rel_option listed_alike (h i) (h' i) \<Longrightarrow> clientList h ids = clientList h' ids"
proof (induction ids)
  case Nil
  then show ?case by simp
next
  case (Cons i ids)
  then have rest: "clientList h ids = clientList h' ids"
    and here: "rel_option listed_alike (h i) (h' i)" by simp_all
  show ?case
  proof (cases "h i")
    case None
    with here have "h' i = None" by (cases "h' i") simp_all
    with None rest show ?thesis by simp
  next
    case (Some c)
    with here obtain c' where c': "h' i = Some c'" "listed_alike c c'"
      by (cases "h' i") simp_all
    then show ?thesis
      using Some by (simp add: summarize_alike [OF c'(2)] rest split: sum.splits)
  qed
qed

section \<open>Registration\<close>

lemma map_get_lazy_bucket:
  "map_get k' (if \<not> map_has k m then map_set k [] m else m) = map_get k' m"
  by (auto simp: map_has_def map_get_def map_of_map_set split: option.splits)

lemma in_bucket_register_key:
  assumes "clients_get s i = Some c" and "truthy (msg_webhookId d)"
  shows "in_bucket (register s i d) k j \<longleftrightarrow> in_bucket s k j \<or> (k = msg_webhookId d \<and> j = i)"
  using assms
  by (auto simp: in_bucket_def bound_to_def register_def Let_def map_get_map_set set_set_add
      map_get_lazy_bucket)

lemma register_effect:
  assumes "clients_get s i = Some c"
  shows "truthy (msg_webhookId d) \<Longrightarrow> legacyClients (register s i d) = legacyClients s"
    and "truthy (msg_webhookId d) \<Longrightarrow>
           map_option webhookId (heap (register s i d) i) = Some (msg_webhookId d) \<and>
           map_option isLegacy (heap (register s i d) i) = Some False"
    and "\<not> truthy (msg_webhookId d) \<Longrightarrow> webhookClients (register s i d) = webhookClients s"
    and "\<not> truthy (msg_webhookId d) \<Longrightarrow> msg_legacy d = JBool True \<Longrightarrow>
           legacyClients (register s i d) = set_add i (legacyClients s) \<and>
           map_option webhookId (heap (register s i d) i) = Some Null \<and>
           map_option isLegacy (heap (register s i d) i) = Some True"
  using assms by (simp_all add: register_def Let_def ws_send_def)

section \<open>What the close handler keeps and the error handler does not\<close>

lemma set_add_nonempty: "set_add x xs \<noteq> []"
  by (auto simp: set_add_def)

lemma no_empty_bucket_frame:
  "webhookClients s' = webhookClients s \<Longrightarrow> no_empty_bucket s \<Longrightarrow> no_empty_bucket s'"
  by (simp add: no_empty_bucket_def)

lemma no_empty_bucket_register: "no_empty_bucket s \<Longrightarrow> no_empty_bucket (register s i d)"
  by (auto simp: no_empty_bucket_def register_def Let_def map_of_map_set set_add_nonempty
      split: option.splits if_splits)

lemma no_empty_bucket_on_message: "no_empty_bucket s \<Longrightarrow> no_empty_bucket (on_message s now i d)"
  by (auto simp: on_message_def no_empty_bucket_register subscribe_def ping_def clear_session_def
      intro: no_empty_bucket_frame split: option.splits)

lemma no_empty_bucket_on_close: "no_empty_bucket s \<Longrightarrow> no_empty_bucket (on_close s i)"
  by (auto simp: no_empty_bucket_def on_close_def Let_def map_of_map_set map_of_map_delete
      split: option.splits if_splits)

lemma no_empty_bucket_step:
  assumes "no_empty_bucket s" and "\<not> is_error (snd e)"
  shows "no_empty_bucket (step s e)"
proof (cases e)
  case (Pair now ev)
  with assms show ?thesis
    by (cases ev)
       (auto simp: no_empty_bucket_on_message no_empty_bucket_on_close connection_def Let_def
          transport_def post_webhook_alert_frame post_alert_frame get_test_frame
          intro: no_empty_bucket_frame split: option.splits)
qed

lemma no_empty_bucket_without_error:
  "no_empty_bucket s \<Longrightarrow> \<forall>e\<in>set es. \<not> is_error (snd e) \<Longrightarrow> no_empty_bucket (run s es)"
  by (induction es arbitrary: s) (simp_all add: no_empty_bucket_step)

lemma no_empty_bucket_init: "no_empty_bucket init"
  by (simp add: no_empty_bucket_def init_def)

lemma dom_fold_deliver: "dom (fst (fold (deliver skip m) rs (h, d))) = dom h"
proof (induction rs arbitrary: h d)
  case Nil
  then show ?case by simp
next
  case (Cons r rs)
  have "dom (\<lambda>x. if x = r then map_option (visited skip m) (h r) else h x) = dom h"
    by (auto simp: dom_def)
  then show ?case
    by (simp add: deliver_eq Cons.IH)
qed

lemma legacy_live_step: "legacy_live s \<Longrightarrow> legacy_live (step s e)"
proof (cases e)
  case (Pair now ev)
  assume live: "legacy_live s"
  show ?thesis
  proof (cases ev)
    case (Connection clientIp)
    with live show ?thesis
      by (auto simp: Pair legacy_live_def connection_def Let_def set_set_add)
  next
    case (Message i d)
    with live show ?thesis
      by (auto simp: Pair legacy_live_def on_message_def register_def subscribe_def ping_def
          clear_session_def clients_get_def Let_def set_set_add
          split: option.splits if_splits)
  next
    case (Close i)
    with live show ?thesis
      by (auto simp: Pair legacy_live_def on_close_def clients_get_def Let_def set_set_delete
          split: option.splits if_splits)
  next
    case (Error i)
    with live show ?thesis
      by (auto simp: Pair legacy_live_def on_error_def clients_get_def Let_def set_set_delete
          split: option.splits if_splits)
  next
    case (Transport i rs)
    with live show ?thesis
      by (auto simp: Pair legacy_live_def transport_def split: option.splits)
  next
    case (PostWebhookAlert wid a)
    with live show ?thesis
      by (auto simp: Pair legacy_live_def post_webhook_alert_def Let_def dom_fold_deliver
          split: option.splits)
  next
    case (PostAlert a)
    with live show ?thesis
      by (auto simp: Pair legacy_live_def post_alert_def Let_def dom_fold_deliver)
  next
    case GetTest
    with live show ?thesis
      by (auto simp: Pair legacy_live_def get_test_def Let_def dom_fold_deliver)
  qed
qed

lemma reachable_legacy_live: "reachable s \<Longrightarrow> legacy_live s"
  by (induction rule: reachable.induct) (simp_all add: legacy_live_step, simp add: legacy_live_def init_def)

section \<open>The example runs, evaluated\<close>

lemma reachable_run_init: "reachable (run init es)"
  by (rule reachable_run [OF reachable_init])

lemmas eval_defs = init_def connection_def on_message_def register_def subscribe_def ping_def
  clear_session_def on_close_def on_error_def transport_def clients_get_def set_add_def
  set_delete_def map_has_def map_get_def map_set_def map_delete_def ws_send_def Let_def
  register_key_def register_legacy_def subscribe_symbol_def clear_session_msg_def
  bound_to_def in_bucket_def in_legacy_def

lemma heap_trace_two:
  "heap (run init trace_two) 1 = Some client_one"
  "heap (run init trace_two) 2 = Some client_two"
  by (simp_all add: eval_defs trace_two_def client_one_def client_two_def)

lemma containers_trace_two:
  "clients (run init trace_two) = [1, 2]"
  "webhookClients (run init trace_two) = [(JStr ''abc123'', [1])]"
  "legacyClients (run init trace_two) = [2]"
  by (simp_all add: eval_defs trace_two_def)

section \<open>Registering again\<close>

text \<open>
  What a \<^verbatim>\<open>register\<close> message does, in every state the server can be in, for a
  connection of \<^verbatim>\<open>clients\<close>. The two binding fields of the client object are never set
  together, and the message rewrites both: it moves the client from one mode to the
  other. In the containers it only adds: the connection joins the bucket of the key it
  names, or \<^verbatim>\<open>legacyClients\<close>, and every membership that held before, of this and of
  every other connection, still holds.
\<close>

lemma register_only_adds:
  assumes "reachable s" and "clients_get s i = Some c" and "msg_type d = JStr ''register''"
  shows "\<not> (isLegacy c \<and> truthy (webhookId c)) \<and>
         (truthy (msg_webhookId d) \<longrightarrow>
            (\<forall>k j. in_bucket (on_message s now i d) k j \<longleftrightarrow>
                     in_bucket s k j \<or> (k = msg_webhookId d \<and> j = i)) \<and>
            (\<forall>j. in_legacy (on_message s now i d) j \<longleftrightarrow> in_legacy s j) \<and>
            map_option webhookId (heap (on_message s now i d) i) = Some (msg_webhookId d) \<and>
            map_option isLegacy (heap (on_message s now i d) i) = Some False) \<and>
         (\<not> truthy (msg_webhookId d) \<and> msg_legacy d = JBool True \<longrightarrow>
            (\<forall>k j. in_bucket (on_message s now i d) k j \<longleftrightarrow> in_bucket s k j) \<and>
            (\<forall>j. in_legacy (on_message s now i d) j \<longleftrightarrow> in_legacy s j \<or> j = i) \<and>
            map_option webhookId (heap (on_message s now i d) i) = Some Null \<and>
            map_option isLegacy (heap (on_message s now i d) i) = Some True)"
proof -
  have msg: "on_message s now i d = register s i d"
    using assms(3) by (simp add: on_message_def)
  have "heap s i = Some c"
    using assms(2) by (simp add: clients_get_def split: if_splits)
  with reachable_exclusive_fields [OF assms(1)] have excl: "\<not> (isLegacy c \<and> truthy (webhookId c))"
    by (simp add: exclusive_fields_def)
  have keyed: "truthy (msg_webhookId d) \<Longrightarrow>
      (\<forall>k j. in_bucket (register s i d) k j \<longleftrightarrow> in_bucket s k j \<or> (k = msg_webhookId d \<and> j = i)) \<and>
      (\<forall>j. in_legacy (register s i d) j \<longleftrightarrow> in_legacy s j) \<and>
      map_option webhookId (heap (register s i d) i) = Some (msg_webhookId d) \<and>
      map_option isLegacy (heap (register s i d) i) = Some False"
    using in_bucket_register_key [OF assms(2)] register_effect(1,2) [OF assms(2)]
    by (simp add: in_legacy_def)
  have legacy: "\<not> truthy (msg_webhookId d) \<Longrightarrow> msg_legacy d = JBool True \<Longrightarrow>
      (\<forall>k j. in_bucket (register s i d) k j \<longleftrightarrow> in_bucket s k j) \<and>
      (\<forall>j. in_legacy (register s i d) j \<longleftrightarrow> in_legacy s j \<or> j = i) \<and>
      map_option webhookId (heap (register s i d) i) = Some Null \<and>
      map_option isLegacy (heap (register s i d) i) = Some True"
    using register_effect(3,4) [OF assms(2)]
    by (auto simp: in_legacy_def in_bucket_def bound_to_def set_set_add)
  show ?thesis
    unfolding msg using excl keyed legacy by blast
qed

text \<open>
  C1. A connection can be in two index buckets at once, and in a bucket and the legacy
  set at once: after registering under \<^verbatim>\<open>abc123\<close> and then under \<^verbatim>\<open>xyz789\<close> the
  connection is in both buckets, and after registering under \<^verbatim>\<open>abc123\<close> and then as
  legacy it is in the bucket of \<^verbatim>\<open>abc123\<close> and in \<^verbatim>\<open>legacyClients\<close>. The handler
  does not remove it from its previous bucket.
\<close>

theorem register_twice_double_indexed:
  "in_bucket (run init trace_rekey) (JStr ''abc123'') 1 \<and>
   in_bucket (run init trace_rekey) (JStr ''xyz789'') 1 \<and>
   map_option webhookId (heap (run init trace_rekey) 1) = Some (JStr ''xyz789'') \<and>
   in_bucket (run init trace_relegacy) (JStr ''abc123'') 1 \<and>
   in_legacy (run init trace_relegacy) 1 \<and>
   map_option webhookId (heap (run init trace_relegacy) 1) = Some Null"
  by (simp add: eval_defs trace_rekey_def trace_relegacy_def)

section \<open>Closing after registering again\<close>

text \<open>
  C2. The primary map and the indexes do not stay consistent. \<^verbatim>\<open>legacyClients\<close> holds
  connections of \<^verbatim>\<open>clients\<close> only (\<open>reachable_legacy_live\<close>), but a connection that
  registered under \<^verbatim>\<open>abc123\<close> and then again (under \<^verbatim>\<open>xyz789\<close>, or as legacy) and
  is then closed, or meets an error, has left \<^verbatim>\<open>clients\<close> and is still in the bucket
  of \<^verbatim>\<open>abc123\<close>: the two handlers clear the bucket of the current \<^verbatim>\<open>webhookId\<close> only.
\<close>

theorem close_leaves_stale_reference:
  "1 \<notin> set (clients (run init (trace_rekey @ [(3, Close 1)]))) \<and>
   in_bucket (run init (trace_rekey @ [(3, Close 1)])) (JStr ''abc123'') 1 \<and>
   1 \<notin> set (clients (run init (trace_relegacy @ [(3, Close 1)]))) \<and>
   in_bucket (run init (trace_relegacy @ [(3, Close 1)])) (JStr ''abc123'') 1 \<and>
   1 \<notin> set (clients (run init (trace_rekey @ [(3, Error 1)]))) \<and>
   in_bucket (run init (trace_rekey @ [(3, Error 1)])) (JStr ''abc123'') 1"
  by (simp add: eval_defs trace_rekey_def trace_relegacy_def)

section \<open>An empty bucket\<close>

text \<open>
  C3. The keyed table can hold an empty bucket. No run without an error event leaves one
  (\<open>no_empty_bucket_without_error\<close>): a bucket is created with its first member, and the
  close handler deletes a bucket it empties. But when the only connection of \<^verbatim>\<open>abc123\<close>
  meets a transport error, the error handler takes it out of the bucket and keeps the
  bucket.
\<close>

theorem error_leaves_empty_bucket:
  "webhookClients (run init trace_error) = [(JStr ''abc123'', [])] \<and>
   clients (run init trace_error) = [] \<and>
   webhookClients (run init trace_close) = [] \<and>
   clients (run init trace_close) = []"
  by (simp add: eval_defs trace_error_def trace_close_def)

section \<open>Keyed delivery to a key nobody is bound to\<close>

text \<open>
  What the keyed endpoint \<^verbatim>\<open>POST /webhook/:webhookId/alert\<close> decides by is the bucket
  of the key, not the \<^verbatim>\<open>webhookId\<close> fields of the connections. When the bucket is
  missing or empty, the request is answered with \<^verbatim>\<open>success: true\<close> and
  \<^verbatim>\<open>deliveredTo: 0\<close>, and the whole server state is the one before the request.
\<close>

lemma keyed_delivery_empty_bucket:
  "bound_to s (JStr wid) = [] \<Longrightarrow>
   post_webhook_alert s now wid a =
     (s, \<lparr>success = True, message = ''Alert received but no clients connected'',
          deliveredTo = 0, timestamp = now, resp_webhookId = wid\<rparr>)"
  by (simp add: post_webhook_alert_def bound_to_def map_get_def split: option.splits)

text \<open>
  C4. An alert for a routing key that no connection is currently bound to is not always
  answered with a count of 0. The only connection registered under \<^verbatim>\<open>abc123\<close> and
  then under \<^verbatim>\<open>xyz789\<close>: its \<^verbatim>\<open>webhookId\<close> is \<^verbatim>\<open>xyz789\<close>, no connection has the
  key \<^verbatim>\<open>abc123\<close>, and yet the bucket of \<^verbatim>\<open>abc123\<close> still holds it. A keyed alert
  for \<^verbatim>\<open>abc123\<close>, six seconds after the start, is written to its transport and
  answered with \<^verbatim>\<open>deliveredTo: 1\<close>, and the state after the request is not the one
  before.
\<close>

theorem stale_bucket_receives_keyed_alert:
  "clients (run init trace_rekey) = [1] \<and>
   map_option webhookId (heap (run init trace_rekey) 1) = Some (JStr ''xyz789'') \<and>
   bound_to (run init trace_rekey) (JStr ''abc123'') = [1] \<and>
   deliveredTo (snd (post_webhook_alert (run init trace_rekey) 6000 ''abc123'' btcusd)) = 1 \<and>
   map_option sent (map_option ws
       (heap (fst (post_webhook_alert (run init trace_rekey) 6000 ''abc123'' btcusd)) 1)) =
     Some [MsgConnected 1 0, MsgRegistered (JStr ''abc123'') ''user-specific'',
           MsgRegistered (JStr ''xyz789'') ''user-specific'',
           MsgAlert btcusd (Some ''abc123'') False 6000] \<and>
   fst (post_webhook_alert (run init trace_rekey) 6000 ''abc123'' btcusd) \<noteq> run init trace_rekey"
proof -
  have s: "clients (run init trace_rekey) = [1]"
    "map_option webhookId (heap (run init trace_rekey) 1) = Some (JStr ''xyz789'')"
    "bound_to (run init trace_rekey) (JStr ''abc123'') = [1]"
    by (simp_all add: eval_defs trace_rekey_def)
  have d: "deliveredTo (snd (post_webhook_alert (run init trace_rekey) 6000 ''abc123'' btcusd)) = 1"
    "map_option sent (map_option ws
       (heap (fst (post_webhook_alert (run init trace_rekey) 6000 ''abc123'' btcusd)) 1)) =
     Some [MsgConnected 1 0, MsgRegistered (JStr ''abc123'') ''user-specific'',
           MsgRegistered (JStr ''xyz789'') ''user-specific'',
           MsgAlert btcusd (Some ''abc123'') False 6000]"
    by (simp_all add: eval_defs trace_rekey_def post_webhook_alert_def deliver_def keyed_skip_def
        in_ignore_window_def)
  have before: "map_option sent (map_option ws (heap (run init trace_rekey) 1)) =
     Some [MsgConnected 1 0, MsgRegistered (JStr ''abc123'') ''user-specific'',
           MsgRegistered (JStr ''xyz789'') ''user-specific'']"
    by (simp add: eval_defs trace_rekey_def)
  have "fst (post_webhook_alert (run init trace_rekey) 6000 ''abc123'' btcusd) \<noteq> run init trace_rekey"
    using d(2) before by auto
  with s d show ?thesis by simp
qed


section \<open>The symbol filter\<close>

text \<open>
  C5. The symbol filter is consulted on the legacy path only. After a keyed alert, a
  connection in the bucket of the alert's key has the alert appended to its transport if
  and only if the clock is outside its ignore window and its transport is open, whatever
  \<^verbatim>\<open>symbol\<close> it holds; and the delivered count is the number of members of the
  bucket with an open transport and outside their window. After a legacy alert, a
  connection in \<^verbatim>\<open>legacyClients\<close> whose \<^verbatim>\<open>symbol\<close> is set and differs from the
  symbol the alert carries is left as it was, and is not among those counted.
\<close>

theorem symbol_filter_only_on_legacy_path:
  assumes "reachable s" and "heap s i = Some c"
  shows "(in_bucket s (JStr wid) i \<longrightarrow>
            heap (fst (post_webhook_alert s now wid a)) i =
              Some (if \<not> in_ignore_window now c \<and> readyState (ws c) = OPEN
                    then received (MsgAlert a (Some wid) False now) c else c)) \<and>
         deliveredTo (snd (post_webhook_alert s now wid a)) =
           length (filter (\<lambda>j. transport_open s j \<and> \<not> ignoring s now j) (bound_to s (JStr wid))) \<and>
         (in_legacy s i \<and> truthy (symbol c) \<and> truthy (alert_symbol a) \<and> symbol c \<noteq> alert_symbol a \<longrightarrow>
            heap (fst (post_alert s now a)) i = Some c \<and> mismatching s a i) \<and>
         deliveredTo (snd (post_alert s now a)) =
           length (filter (\<lambda>j. transport_open s j \<and> \<not> ignoring s now j \<and> \<not> mismatching s a j)
                     (legacyClients s))"
  using assms
  by (simp add: keyed_outcome keyed_count legacy_outcome legacy_count symbol_mismatch_def
      mismatching_def)

text \<open>
  In the example run, six seconds after the start, an \<^verbatim>\<open>ETHUSD\<close> alert for
  \<^verbatim>\<open>abc123\<close> reaches the keyed connection although it subscribed to \<^verbatim>\<open>BTCUSD\<close>; the
  same alert on the legacy path is not sent to the legacy connection.
\<close>

theorem symbol_filter_only_on_legacy_path_witness:
  "reachable (run init trace_two) \<and>
   heap (run init trace_two) 1 = Some client_one \<and>
   heap (run init trace_two) 2 = Some client_two \<and>
   in_bucket (run init trace_two) (JStr ''abc123'') 1 \<and>
   symbol_mismatch ethusd client_one \<and>
   heap (fst (post_webhook_alert (run init trace_two) 6000 ''abc123'' ethusd)) 1 =
     Some (received (MsgAlert ethusd (Some ''abc123'') False 6000) client_one) \<and>
   deliveredTo (snd (post_webhook_alert (run init trace_two) 6000 ''abc123'' ethusd)) = 1 \<and>
   in_legacy (run init trace_two) 2 \<and>
   truthy (symbol client_two) \<and> truthy (alert_symbol ethusd) \<and>
   symbol client_two \<noteq> alert_symbol ethusd \<and>
   heap (fst (post_alert (run init trace_two) 6000 ethusd)) 2 = Some client_two \<and>
   deliveredTo (snd (post_alert (run init trace_two) 6000 ethusd)) = 0"
proof -
  note keyed = symbol_filter_only_on_legacy_path
    [OF reachable_run_init heap_trace_two(1), of "''abc123''" 6000 ethusd]
  note legacy = symbol_filter_only_on_legacy_path
    [OF reachable_run_init heap_trace_two(2), of "''abc123''" 6000 ethusd]
  show ?thesis
    using keyed legacy heap_trace_two containers_trace_two reachable_run_init [of trace_two]
    by (simp add: in_bucket_def in_legacy_def bound_to_def map_get_def transport_open_def
        ignoring_def mismatching_def in_ignore_window_def symbol_mismatch_def
        client_one_def client_two_def ethusd_def)
qed

text \<open>
  C6 (as amended). For a connection in \<^verbatim>\<open>legacyClients\<close> whose symbol filter is set,
  with an open transport and outside its ignore window, a legacy alert is sent unless the
  alert carries a symbol and that symbol differs from the filter (compared with
  \<^verbatim>\<open>!==\<close>: exact and case-sensitive). An alert that carries no symbol is sent whatever
  the filter.
\<close>

theorem legacy_symbol_admission:
  assumes "reachable s" and "in_legacy s i" and "heap s i = Some c" and "truthy (symbol c)"
    and "\<not> in_ignore_window now c" and "readyState (ws c) = OPEN"
  shows "heap (fst (post_alert s now a)) i =
           Some (if truthy (alert_symbol a) \<and> alert_symbol a \<noteq> symbol c then c
                 else received (MsgAlert a None True now) c)"
  using assms by (auto simp: legacy_outcome symbol_mismatch_def)

text \<open>
  The legacy connection of the example run subscribed to \<^verbatim>\<open>BTCUSD\<close>: an
  \<^verbatim>\<open>ETHUSD\<close> alert is not sent to it, a \<^verbatim>\<open>BTCUSD\<close> alert and an alert without
  symbol are.
\<close>

theorem legacy_symbol_admission_witness:
  "reachable (run init trace_two) \<and> in_legacy (run init trace_two) 2 \<and>
   heap (run init trace_two) 2 = Some client_two \<and> truthy (symbol client_two) \<and>
   \<not> in_ignore_window 6000 client_two \<and> readyState (ws client_two) = OPEN \<and>
   heap (fst (post_alert (run init trace_two) 6000 ethusd)) 2 = Some client_two \<and>
   heap (fst (post_alert (run init trace_two) 6000 btcusd)) 2 =
     Some (received (MsgAlert btcusd None True 6000) client_two) \<and>
   heap (fst (post_alert (run init trace_two) 6000 unlabelled)) 2 =
     Some (received (MsgAlert unlabelled None True 6000) client_two)"
proof -
  have l: "in_legacy (run init trace_two) 2"
    using containers_trace_two by (simp add: in_legacy_def)
  have c: "truthy (symbol client_two)" "\<not> in_ignore_window 6000 client_two"
    "readyState (ws client_two) = OPEN"
    by (simp_all add: client_two_def in_ignore_window_def)
  note adm = legacy_symbol_admission [OF reachable_run_init l heap_trace_two(2) c, of _]
  show ?thesis
    using adm [of ethusd] adm [of btcusd] adm [of unlabelled] l c heap_trace_two(2)
      reachable_run_init [of trace_two]
    by (simp add: client_two_def ethusd_def btcusd_def unlabelled_def)
qed

text \<open>
  C6 as stated fails: the legacy connection has the filter \<^verbatim>\<open>BTCUSD\<close> set, and an
  alert whose payload has no \<^verbatim>\<open>symbol\<close> is delivered to it and counted.
\<close>

theorem alert_without_symbol_passes_filter:
  "symbol client_two = JStr ''BTCUSD'' \<and> alert_symbol unlabelled = Undefined \<and>
   heap (run init trace_two) 2 = Some client_two \<and>
   heap (fst (post_alert (run init trace_two) 6000 unlabelled)) 2 =
     Some (received (MsgAlert unlabelled None True 6000) client_two) \<and>
   deliveredTo (snd (post_alert (run init trace_two) 6000 unlabelled)) = 1"
proof -
  have l: "in_legacy (run init trace_two) 2"
    using containers_trace_two by (simp add: in_legacy_def)
  show ?thesis
    using legacy_outcome [OF reachable_run_init heap_trace_two(2) l, of 6000 unlabelled]
      legacy_count [OF reachable_run_init, of trace_two 6000 unlabelled]
      heap_trace_two containers_trace_two
    by (simp add: transport_open_def ignoring_def mismatching_def in_ignore_window_def
        symbol_mismatch_def client_two_def unlabelled_def)
qed

section \<open>The ignore window\<close>

text \<open>
  C7. Under a clock that never goes back, a \<^verbatim>\<open>clear_session\<close> message never moves a
  deadline backward. In every state reached from the start, for a clock reading \<open>now\<close>
  not before the last event and a later reading \<open>now'\<close>: after one
  \<^verbatim>\<open>clear_session\<close> at \<open>now\<close> the deadline \<^verbatim>\<open>ignoreUntil\<close> of the connection is at
  least what it was, after a second one at \<open>now'\<close> it is at least that again, and for a
  connection in \<^verbatim>\<open>clients\<close> the first deadline is \<open>now + 10000\<close> and the second is
  the later of \<open>now + 10000\<close> and \<open>now' + 10000\<close>.
\<close>

theorem clear_session_only_extends:
  assumes "clock_ok 0 es" and "last_time 0 es \<le> now" and "now \<le> now'"
    and "msg_type d = JStr ''clear_session''" and "msg_type d' = JStr ''clear_session''"
    and "deadline (run init es) i = Some u"
  shows "\<exists>u1 u2. deadline (on_message (run init es) now i d) i = Some u1 \<and> u \<le> u1 \<and>
           deadline (on_message (on_message (run init es) now i d) now' i d') i = Some u2 \<and>
           u1 \<le> u2 \<and>
           (i \<in> set (clients (run init es)) \<longrightarrow>
              u1 = now + 10000 \<and> u2 = max (now + 10000) (now' + 10000))"
proof -
  let ?s = "run init es"
  have "deadlines_within (last_time 0 es) ?s"
    using reachable_init deadlines_within_init assms(1) by (rule deadlines_within_run)
  then have "deadlines_within now ?s"
    using assms(2) by (rule deadlines_within_mono)
  moreover obtain c where c: "heap ?s i = Some c" "ignoreUntil c = u"
    using assms(6) by (auto simp: deadline_def)
  ultimately have u: "u \<le> now + 10000"
    by (auto simp: deadlines_within_def)
  have live: "i \<in> set (clients ?s) \<longleftrightarrow> clients_get ?s i \<noteq> None"
    using c by (simp add: clients_get_def)
  show ?thesis
    using u assms(3,6) live
    by (simp add: clear_session_deadline [OF assms(4)] clear_session_deadline [OF assms(5)]
        clear_session_clients [OF assms(4)] max_def)
qed

text \<open>
  In the example run the first connection has the deadline 5000 of its connect time;
  \<^verbatim>\<open>clear_session\<close> at 100 moves it to 10100, and again at 200 to 10200.
\<close>

theorem clear_session_only_extends_witness:
  "clock_ok 0 trace_two \<and> last_time 0 trace_two \<le> 100 \<and> (100 :: nat) \<le> 200 \<and>
   msg_type clear_session_msg = JStr ''clear_session'' \<and>
   deadline (run init trace_two) 1 = Some 5000 \<and>
   1 \<in> set (clients (run init trace_two)) \<and>
   deadline (on_message (run init trace_two) 100 1 clear_session_msg) 1 = Some 10100 \<and>
   deadline (on_message (on_message (run init trace_two) 100 1 clear_session_msg) 200 1
     clear_session_msg) 1 = Some 10200"
proof -
  have clock: "clock_ok 0 trace_two" "last_time 0 trace_two \<le> 100" "(100 :: nat) \<le> 200"
    by (simp_all add: trace_two_def)
  have m: "msg_type clear_session_msg = JStr ''clear_session''"
    by (simp add: clear_session_msg_def)
  have d: "deadline (run init trace_two) 1 = Some 5000"
    using heap_trace_two(1) by (simp add: deadline_def client_one_def)
  have live: "1 \<in> set (clients (run init trace_two))"
    using containers_trace_two(1) by simp
  from clear_session_only_extends [OF clock m m d]
  obtain u1 u2 where
    "deadline (on_message (run init trace_two) 100 1 clear_session_msg) 1 = Some u1"
    "deadline (on_message (on_message (run init trace_two) 100 1 clear_session_msg) 200 1
       clear_session_msg) 1 = Some u2"
    "1 \<in> set (clients (run init trace_two)) \<longrightarrow>
       u1 = 100 + 10000 \<and> u2 = max (100 + 10000) (200 + 10000)"
    by blast
  with live clock m d show ?thesis by simp
qed

text \<open>
  C8 (as amended). A new connection starts with \<^verbatim>\<open>ignoreUntil\<close> five seconds past its
  connect time. While the clock is before the deadline of a connection, neither the
  keyed endpoint nor the legacy endpoint writes to it, and it is not among the
  connections they count: each count is the number of targets with an open transport,
  outside their window and, on the legacy path, without a symbol mismatch. From the
  deadline on, a connection with an open transport that is in the bucket of the alert's
  key receives the keyed alert, and one in \<^verbatim>\<open>legacyClients\<close> without a symbol mismatch
  receives the legacy alert.
\<close>

theorem ignore_window_on_delivery_endpoints:
  assumes "reachable s" and "heap s i = Some c"
  shows "map_option ignoreUntil (heap (connection s t clientIp) (clientIdCounter s + 1)) = Some (t + 5000) \<and>
         clientIdCounter s + 1 \<in> set (clients (connection s t clientIp)) \<and>
         (now < ignoreUntil c \<longrightarrow>
            heap (fst (post_webhook_alert s now wid a)) i = Some c \<and>
            heap (fst (post_alert s now a)) i = Some c \<and> ignoring s now i) \<and>
         deliveredTo (snd (post_webhook_alert s now wid a)) =
           length (filter (\<lambda>j. transport_open s j \<and> \<not> ignoring s now j) (bound_to s (JStr wid))) \<and>
         deliveredTo (snd (post_alert s now a)) =
           length (filter (\<lambda>j. transport_open s j \<and> \<not> ignoring s now j \<and> \<not> mismatching s a j)
                     (legacyClients s)) \<and>
         (ignoreUntil c \<le> now \<and> readyState (ws c) = OPEN \<longrightarrow>
            (in_bucket s (JStr wid) i \<longrightarrow>
               heap (fst (post_webhook_alert s now wid a)) i =
                 Some (received (MsgAlert a (Some wid) False now) c)) \<and>
            (in_legacy s i \<and> \<not> symbol_mismatch a c \<longrightarrow>
               heap (fst (post_alert s now a)) i = Some (received (MsgAlert a None True now) c)))"
proof -
  have new: "map_option ignoreUntil (heap (connection s t clientIp) (clientIdCounter s + 1)) = Some (t + 5000)"
    "clientIdCounter s + 1 \<in> set (clients (connection s t clientIp))"
    by (simp_all add: connection_def Let_def set_set_add)
  have kh: "heap (fst (post_webhook_alert s now wid a)) i =
      (if in_bucket s (JStr wid) i
       then Some (if \<not> in_ignore_window now c \<and> readyState (ws c) = OPEN
                  then received (MsgAlert a (Some wid) False now) c else c)
       else Some c)"
    using assms
    by (simp add: post_webhook_alert_heap reachable_well_formed in_bucket_def visited_eq keyed_skip_def)
  have lh: "heap (fst (post_alert s now a)) i =
      (if in_legacy s i
       then Some (if \<not> in_ignore_window now c \<and> \<not> symbol_mismatch a c \<and> readyState (ws c) = OPEN
                  then received (MsgAlert a None True now) c else c)
       else Some c)"
    using assms
    by (simp add: post_alert_heap reachable_well_formed in_legacy_def visited_eq legacy_skip_def)
  show ?thesis
    using assms new
    by (simp add: kh lh keyed_count legacy_count in_window_iff ignoring_def)
qed

text \<open>
  In the example run, at time 100 both connections are inside their windows and a
  \<^verbatim>\<open>BTCUSD\<close> alert reaches neither, on either path; at time 6000 it reaches both. A
  connection made at time 9 gets the deadline 5009.
\<close>

theorem ignore_window_on_delivery_endpoints_witness:
  "reachable (run init trace_two) \<and>
   heap (run init trace_two) 1 = Some client_one \<and>
   heap (run init trace_two) 2 = Some client_two \<and>
   map_option ignoreUntil (heap (connection (run init trace_two) 9 ''10.0.0.3'') 3) = Some 5009 \<and>
   100 < ignoreUntil client_one \<and> 100 < ignoreUntil client_two \<and>
   heap (fst (post_webhook_alert (run init trace_two) 100 ''abc123'' btcusd)) 1 = Some client_one \<and>
   deliveredTo (snd (post_webhook_alert (run init trace_two) 100 ''abc123'' btcusd)) = 0 \<and>
   heap (fst (post_alert (run init trace_two) 100 btcusd)) 2 = Some client_two \<and>
   deliveredTo (snd (post_alert (run init trace_two) 100 btcusd)) = 0 \<and>
   ignoreUntil client_one \<le> 6000 \<and> ignoreUntil client_two \<le> 6000 \<and>
   readyState (ws client_one) = OPEN \<and> readyState (ws client_two) = OPEN \<and>
   in_bucket (run init trace_two) (JStr ''abc123'') 1 \<and>
   in_legacy (run init trace_two) 2 \<and> \<not> symbol_mismatch btcusd client_two \<and>
   heap (fst (post_webhook_alert (run init trace_two) 6000 ''abc123'' btcusd)) 1 =
     Some (received (MsgAlert btcusd (Some ''abc123'') False 6000) client_one) \<and>
   deliveredTo (snd (post_webhook_alert (run init trace_two) 6000 ''abc123'' btcusd)) = 1 \<and>
   heap (fst (post_alert (run init trace_two) 6000 btcusd)) 2 =
     Some (received (MsgAlert btcusd None True 6000) client_two) \<and>
   deliveredTo (snd (post_alert (run init trace_two) 6000 btcusd)) = 1"
proof -
  note w = ignore_window_on_delivery_endpoints [OF reachable_run_init, of trace_two]
  have counter: "clientIdCounter (run init trace_two) = 2"
    by (simp add: eval_defs trace_two_def)
  show ?thesis
    using w [OF heap_trace_two(1), of 9 "''10.0.0.3''" 100 "''abc123''" btcusd]
      w [OF heap_trace_two(2), of 9 "''10.0.0.3''" 100 "''abc123''" btcusd]
      w [OF heap_trace_two(1), of 9 "''10.0.0.3''" 6000 "''abc123''" btcusd]
      w [OF heap_trace_two(2), of 9 "''10.0.0.3''" 6000 "''abc123''" btcusd]
      heap_trace_two containers_trace_two counter reachable_run_init [of trace_two]
    by (simp add: in_bucket_def in_legacy_def bound_to_def map_get_def transport_open_def
        ignoring_def mismatching_def in_ignore_window_def symbol_mismatch_def
        client_one_def client_two_def btcusd_def)
qed

text \<open>
  C8 as stated fails: \<^verbatim>\<open>GET /test\<close> is a delivery operation of the system, and at
  time 100, inside the window of the first connection, it writes its alert to that
  connection and counts both connections.
\<close>

theorem test_alert_inside_ignore_window:
  "ignoring (run init trace_two) 100 1 \<and>
   heap (run init trace_two) 1 = Some client_one \<and>
   heap (fst (get_test (run init trace_two) 100)) 1 =
     Some (received (MsgAlert testAlert None False 100) client_one) \<and>
   deliveredTo (snd (get_test (run init trace_two) 100)) = 2"
proof -
  have live: "1 \<in> set (clients (run init trace_two))"
    using containers_trace_two(1) by simp
  show ?thesis
    using test_outcome [OF reachable_run_init heap_trace_two(1) live, of 100]
      test_count [OF reachable_run_init, of trace_two 100]
      heap_trace_two containers_trace_two
    by (simp add: transport_open_def ignoring_def in_ignore_window_def client_one_def
        client_two_def)
qed

section \<open>The status listing and the routing key\<close>

text \<open>
  C9 (as amended). The status listing shows of each connection its id, connect time,
  symbol filter, legacy flag, and of a string routing key the first eight characters
  followed by \<^verbatim>\<open>...\<close>; nothing else of a client object reaches it. Two server states
  with the same connection ids and container sizes, whose client objects agree on
  connect time, symbol, legacy flag and on the first eight characters of the key, get the
  same response: the transport, the address, the deadline and the key beyond its eighth
  character have no influence on it.
\<close>

theorem status_listing_exposure:
  assumes "clients s' = clients s"
    and "length (webhookClients s') = length (webhookClients s)"
    and "length (legacyClients s') = length (legacyClients s)"
    and "\<forall>i\<in>set (clients s). rel_option listed_alike (heap s i) (heap s' i)"
  shows "get_status s' now uptime = get_status s now uptime \<and>
         (\<forall>i c k. webhookId c = JStr k \<and> k \<noteq> [] \<longrightarrow>
            summarize i c =
              Inr \<lparr>sum_id = i, sum_connectedAt = connectedAt c, sum_symbol = symbol c,
                   sum_webhookId = JStr (take 8 k @ ''...''), sum_isLegacy = isLegacy c\<rparr>)"
proof -
  have "clientList (heap s) (clients s) = clientList (heap s') (clients s)"
    using assms(4) by (rule clientList_alike)
  then have "get_status s' now uptime = get_status s now uptime"
    by (simp add: get_status_def assms(1-3) split: sum.splits)
  then show ?thesis
    by (simp add: summarize_def redact_def)
qed

text \<open>
  The two example runs differ in the address of the connection, in its deadline, in
  what was written to its transport and in the key from the ninth character on; the
  status responses are equal.
\<close>

theorem status_listing_exposure_witness:
  "clients (run init trace_other_key) = clients (run init trace_long_key) \<and>
   length (webhookClients (run init trace_other_key)) =
     length (webhookClients (run init trace_long_key)) \<and>
   length (legacyClients (run init trace_other_key)) =
     length (legacyClients (run init trace_long_key)) \<and>
   clients (run init trace_long_key) = [1] \<and>
   rel_option listed_alike (heap (run init trace_long_key) 1) (heap (run init trace_other_key) 1) \<and>
   map_option webhookId (heap (run init trace_long_key) 1) = Some (JStr ''abc12345-first-secret'') \<and>
   map_option webhookId (heap (run init trace_other_key) 1) = Some (JStr ''abc12345-other'') \<and>
   get_status (run init trace_other_key) 9 42 = get_status (run init trace_long_key) 9 42 \<and>
   summarize 1 client_one =
     Inr \<lparr>sum_id = 1, sum_connectedAt = 0, sum_symbol = JStr ''BTCUSD'',
          sum_webhookId = JStr ''abc123...'', sum_isLegacy = False\<rparr>"
proof -
  have sizes: "clients (run init trace_other_key) = clients (run init trace_long_key)"
    "length (webhookClients (run init trace_other_key)) =
       length (webhookClients (run init trace_long_key))"
    "length (legacyClients (run init trace_other_key)) =
       length (legacyClients (run init trace_long_key))"
    and ids: "clients (run init trace_long_key) = [1]"
    by (simp_all add: eval_defs trace_long_key_def trace_other_key_def)
  have alike: "rel_option listed_alike (heap (run init trace_long_key) 1)
      (heap (run init trace_other_key) 1)"
    and keys: "map_option webhookId (heap (run init trace_long_key) 1) =
        Some (JStr ''abc12345-first-secret'')"
      "map_option webhookId (heap (run init trace_other_key) 1) = Some (JStr ''abc12345-other'')"
    by (simp_all add: eval_defs trace_long_key_def trace_other_key_def listed_alike_def
        key_prefix_def)
  have all: "\<forall>i\<in>set (clients (run init trace_long_key)).
      rel_option listed_alike (heap (run init trace_long_key) i) (heap (run init trace_other_key) i)"
    using alike by (simp add: ids)
  have k: "webhookId client_one = JStr ''abc123'' \<and> ''abc123'' \<noteq> []"
    by (simp add: client_one_def)
  note e = status_listing_exposure [OF sizes all, of 9 42]
  from e have "get_status (run init trace_other_key) 9 42 = get_status (run init trace_long_key) 9 42"
    by (rule conjunct1)
  moreover from e k have "summarize 1 client_one =
     Inr \<lparr>sum_id = 1, sum_connectedAt = connectedAt client_one, sum_symbol = symbol client_one,
          sum_webhookId = JStr (take 8 ''abc123'' @ ''...''), sum_isLegacy = isLegacy client_one\<rparr>"
    by blast
  ultimately show ?thesis
    using sizes ids alike keys by (simp add: client_one_def)
qed

text \<open>
  C9 as stated fails: a key of at most eight characters is listed in full (here
  \<^verbatim>\<open>abc123\<close>, as the beginning of \<^verbatim>\<open>abc123...\<close>), and the listing has a fifth field,
  the legacy flag.
\<close>

theorem short_key_listed_in_full:
  "webhookId client_one = JStr ''abc123'' \<and>
   heap (run init trace_two) 1 = Some client_one \<and>
   clientList (heap (run init trace_two)) (clients (run init trace_two)) =
     Inr [\<lparr>sum_id = 1, sum_connectedAt = 0, sum_symbol = JStr ''BTCUSD'',
           sum_webhookId = JStr ''abc123...'', sum_isLegacy = False\<rparr>,
          \<lparr>sum_id = 2, sum_connectedAt = 3, sum_symbol = JStr ''BTCUSD'',
           sum_webhookId = Null, sum_isLegacy = True\<rparr>] \<and>
   prefix ''abc123'' ''abc123...''"
  using heap_trace_two containers_trace_two
  by (simp add: summarize_def redact_def client_one_def client_two_def)

section \<open>The test endpoint\<close>

text \<open>
  C10. \<^verbatim>\<open>GET /test\<close> writes its test alert to every connection of \<^verbatim>\<open>clients\<close>
  whose transport is open and counts exactly those: neither the ignore window, nor the
  symbol filter, nor the binding of the connection is consulted.
\<close>

theorem test_alert_bypasses_admission:
  assumes "reachable s" and "i \<in> set (clients s)" and "heap s i = Some c"
    and "readyState (ws c) = OPEN"
  shows "heap (fst (get_test s now)) i = Some (received (MsgAlert testAlert None False now) c) \<and>
         deliveredTo (snd (get_test s now)) = length (filter (transport_open s) (clients s)) \<and>
         transport_open s i \<and> success (snd (get_test s now))"
proof -
  have "success (snd (get_test s now))"
    by (simp add: get_test_def Let_def)
  then show ?thesis
    using assms by (simp add: test_outcome test_count transport_open_def)
qed

text \<open>
  In the example run, at time 100, the first connection is inside its ignore window,
  subscribed to a symbol other than the test alert's and bound to a key; it receives the
  test alert, and both connections are counted.
\<close>

theorem test_alert_bypasses_admission_witness:
  "reachable (run init trace_two) \<and> 1 \<in> set (clients (run init trace_two)) \<and>
   heap (run init trace_two) 1 = Some client_one \<and> readyState (ws client_one) = OPEN \<and>
   in_ignore_window 100 client_one \<and> symbol_mismatch testAlert client_one \<and>
   truthy (webhookId client_one) \<and>
   heap (fst (get_test (run init trace_two) 100)) 1 =
     Some (received (MsgAlert testAlert None False 100) client_one) \<and>
   deliveredTo (snd (get_test (run init trace_two) 100)) = 2"
proof -
  have a: "1 \<in> set (clients (run init trace_two))"
    using containers_trace_two(1) by simp
  have b: "readyState (ws client_one) = OPEN" "in_ignore_window 100 client_one"
    "symbol_mismatch testAlert client_one" "truthy (webhookId client_one)"
    by (simp_all add: client_one_def in_ignore_window_def symbol_mismatch_def testAlert_def)
  show ?thesis
    using test_alert_bypasses_admission [OF reachable_run_init a heap_trace_two(1) b(1), of 100]
      a b heap_trace_two containers_trace_two reachable_run_init [of trace_two]
    by (simp add: transport_open_def client_one_def client_two_def)
qed

end
